theory Spec2Isabelle
  imports Main
begin

section \<open>Go error values\<close>

text \<open>
  The registry reports failures as Go \<^verbatim>\<open>error\<close> values, and its callers test them
  with \<^verbatim>\<open>errors.Is\<close>, which compares identities along the chain of wrapped errors.
  An error value is modelled by what \<^verbatim>\<open>errors.Is\<close> can see of it:
  \<^item> the four package variables of \<^verbatim>\<open>error.go\<close>, each made once by
    \<^verbatim>\<open>errors.New\<close> and so each an identity of its own;
  \<^item> \<open>Foreign x\<close>, an error value made by the caller (what a callback returns), of a
    comparable type and identified by \<open>x\<close>, with no \<^verbatim>\<open>Is\<close> or \<^verbatim>\<open>Unwrap\<close> method;
  \<^item> \<open>WrapError a s u\<close>, the value \<^verbatim>\<open>fmt.Errorf\<close> allocates for a format with one
    \<^verbatim>\<open>%w\<close> verb, and \<open>WrapErrors a s us\<close>, the one it allocates for several. Both are
    pointers: \<open>a\<close> is the address of the allocation, so two values built by two calls
    differ even when their texts agree.
  The text of a message is kept as the format string with its \<^verbatim>\<open>%q\<close> operands and is
  not rendered. A \<^verbatim>\<open>nil\<close> error is \<open>None\<close> of \<open>'e error option\<close>.
\<close>

datatype fmt = Fmt string "string list"

datatype 'e error =
    ErrGroupNotFound
  | ErrResourceNotFound
  | ErrCloseResourceFailed
  | ErrPingResourceFailed
  | Foreign 'e
  | WrapError nat fmt "'e error option"
  | WrapErrors nat fmt "'e error list"

text \<open>
  \<^verbatim>\<open>fmt.Errorf\<close> with the operands of its \<^verbatim>\<open>%w\<close> verbs: one verb keeps its operand
  (also a nil one), several verbs keep the operands that are errors.  The package calls
  it with one verb or two.
\<close>

definition fmt_Errorf :: "nat \<Rightarrow> string \<Rightarrow> string list \<Rightarrow> 'e error option list \<Rightarrow> 'e error" where
  "fmt_Errorf a format qs ws =
     (case ws of
        [w] \<Rightarrow> WrapError a (Fmt format qs) w
      | _ \<Rightarrow> WrapErrors a (Fmt format qs) (List.map_filter id ws))"

text \<open>
  The loop of \<^verbatim>\<open>errors.Is\<close>: the value itself is compared with the target, then the
  values it unwraps to, depth first.
\<close>

fun errors_is :: "'e error \<Rightarrow> 'e error \<Rightarrow> bool" where
  "errors_is (WrapError a s u) target =
     (WrapError a s u = target \<or> (case u of None \<Rightarrow> False | Some e \<Rightarrow> errors_is e target))"
| "errors_is (WrapErrors a s us) target =
     (WrapErrors a s us = target \<or> list_ex (\<lambda>e. errors_is e target) us)"
| "errors_is err target = (err = target)"

definition errors_Is :: "'e error option \<Rightarrow> 'e error option \<Rightarrow> bool" where
  "errors_Is err target =
     (case (err, target) of
        (Some e, Some t) \<Rightarrow> errors_is e t
      | _ \<Rightarrow> err = target)"

text \<open>The addresses of the allocations an error value reaches.\<close>

fun addrs :: "'e error \<Rightarrow> nat list" where
  "addrs (WrapError a s u) = a # (case u of None \<Rightarrow> [] | Some e \<Rightarrow> addrs e)"
| "addrs (WrapErrors a s us) = a # concat (map addrs us)"
| "addrs err = []"

subsection \<open>The constructors of \<^verbatim>\<open>error.go\<close>\<close>

text \<open>Each takes, first, the address at which its \<^verbatim>\<open>fmt.Errorf\<close> allocates.\<close>

definition NewErrGroupNotFound :: "nat \<Rightarrow> string \<Rightarrow> 'e error" where
  "NewErrGroupNotFound a groupName =
     fmt_Errorf a ''group %q not found: %w'' [groupName] [Some ErrGroupNotFound]"

definition NewErrResourceNotFound :: "nat \<Rightarrow> string \<Rightarrow> string \<Rightarrow> 'e error" where
  "NewErrResourceNotFound a groupName resourceName =
     fmt_Errorf a ''resource %q not found from group %q: %w'' [resourceName, groupName]
       [Some ErrResourceNotFound]"

definition NewErrCloseResourceFailed ::
  "nat \<Rightarrow> string \<Rightarrow> string \<Rightarrow> 'e error option \<Rightarrow> 'e error" where
  "NewErrCloseResourceFailed a groupName resourceName err =
     fmt_Errorf a ''close resource %q in group %q failed: %w: %w'' [resourceName, groupName]
       [Some ErrCloseResourceFailed, err]"

definition NewErrPingResourceFailed ::
  "nat \<Rightarrow> string \<Rightarrow> string \<Rightarrow> 'e error option \<Rightarrow> 'e error" where
  "NewErrPingResourceFailed a groupName resourceName err =
     fmt_Errorf a ''ping resource %q in group %q failed: %w'' [resourceName, groupName]
       [Some ErrPingResourceFailed]"

section \<open>The registry\<close>

text \<open>
  A \<^verbatim>\<open>connection\<close> is the record of one resource. \<open>val\<close> starts as the zero value
  of the resource type, written \<open>default\<close>.
\<close>

record ('c, 't) connection =
  cfg :: 'c
  val :: 't
  ready :: bool

text \<open>
  What lies outside the registry's maps: the state the callbacks work on (\<open>env\<close>), the
  record of every callback invocation with its operand and its result (\<open>calls\<close>), and
  the number of error values allocated so far (\<open>allocs\<close>), which is the address of the
  next one.
\<close>

datatype ('c, 't, 'e) call =
    OpenerCall 'c "'e error + 't"
  | CloserCall 't "'e error option"

record ('c, 't, 'e, 'w) world =
  env :: 'w
  calls :: "('c, 't, 'e) call list"
  allocs :: nat

text \<open>
  \<^verbatim>\<open>Opener\<close> returns a value or a non-nil error (\<open>Inl\<close>), \<^verbatim>\<open>Closer\<close> an error or
  nil (\<open>None\<close>); both receive the context \<open>'x\<close> unchanged and may change \<open>env\<close>.
\<close>

type_synonym ('x, 'c, 't, 'e, 'w) Opener = "'x \<Rightarrow> 'c \<Rightarrow> 'w \<Rightarrow> ('e error + 't) \<times> 'w"

type_synonym ('x, 't, 'e, 'w) Closer = "'x \<Rightarrow> 't \<Rightarrow> 'w \<Rightarrow> 'e error option \<times> 'w"

text \<open>
  The \<^verbatim>\<open>manager\<close> struct. Its mutex is not modelled: operations run one at a time.
  The closer may be nil (\<open>None\<close>); the opener is a function, and the callbacks return
  (a callback that panics or calls back into the registry is outside the model).
\<close>

record ('x, 'c, 't, 'e, 'w) manager =
  groups :: "string \<rightharpoonup> (string \<rightharpoonup> ('c, 't) connection)"
  opener :: "('x, 'c, 't, 'e, 'w) Opener"
  closer :: "('x, 't, 'e, 'w) Closer option"

text \<open>
  The \<^verbatim>\<open>group\<close> struct is a name and a pointer to the manager; the manager is the
  state every operation takes and returns, so the handle keeps the name.
\<close>

record group =
  g_name :: string

definition New ::
  "('x, 'c, 't, 'e, 'w) Opener \<Rightarrow> ('x, 't, 'e, 'w) Closer option \<Rightarrow> ('x, 'c, 't, 'e, 'w) manager" where
  "New opener' closer' = \<lparr>groups = Map.empty, opener = opener', closer = closer'\<rparr>"

definition alloc :: "('c, 't, 'e, 'w) world \<Rightarrow> ('c, 't, 'e, 'w) world" where
  "alloc w = w\<lparr>allocs := Suc (allocs w)\<rparr>"

definition call_opener ::
  "('x, 'c, 't, 'e, 'w) manager \<Rightarrow> 'x \<Rightarrow> 'c \<Rightarrow> ('c, 't, 'e, 'w) world
     \<Rightarrow> ('e error + 't) \<times> ('c, 't, 'e, 'w) world" where
  "call_opener m ctx c w =
     (case opener m ctx c (env w) of
        (r, e') \<Rightarrow> (r, w\<lparr>env := e', calls := calls w @ [OpenerCall c r]\<rparr>))"

definition call_closer ::
  "('x, 't, 'e, 'w) Closer \<Rightarrow> 'x \<Rightarrow> 't \<Rightarrow> ('c, 't, 'e, 'w) world
     \<Rightarrow> 'e error option \<times> ('c, 't, 'e, 'w) world" where
  "call_closer cl ctx v w =
     (case cl ctx v (env w) of
        (r, e') \<Rightarrow> (r, w\<lparr>env := e', calls := calls w @ [CloserCall v r]\<rparr>))"

subsection \<open>Manager operations\<close>

definition manager_Group ::
  "('x, 'c, 't, 'e, 'w) manager \<Rightarrow> string \<Rightarrow> ('c, 't, 'e, 'w) world
     \<Rightarrow> ('e error + group) \<times> ('c, 't, 'e, 'w) world" where
  "manager_Group m name w =
     (case groups m name of
        None \<Rightarrow> (Inl (NewErrGroupNotFound (allocs w) name), alloc w)
      | Some _ \<Rightarrow> (Inr \<lparr>g_name = name\<rparr>, w))"

definition manager_AddGroup ::
  "('x, 'c, 't, 'e, 'w) manager \<Rightarrow> string \<Rightarrow> bool \<times> ('x, 'c, 't, 'e, 'w) manager" where
  "manager_AddGroup m name =
     (case groups m name of
        None \<Rightarrow> (False, m\<lparr>groups := (groups m)(name \<mapsto> Map.empty)\<rparr>)
      | Some _ \<Rightarrow> (True, m))"

text \<open>
  The body of the loop over one group's records, which \<^verbatim>\<open>manager.Close\<close> and
  \<^verbatim>\<open>group.Close\<close> both have. \<^verbatim>\<open>range\<close> visits the keys of a map in an order the
  runtime chooses: the order is the list \<open>ns\<close>. A name that is not a key is passed over.
\<close>

fun close_conns ::
  "('x, 'c, 't, 'e, 'w) manager \<Rightarrow> 'x \<Rightarrow> string \<Rightarrow> (string \<rightharpoonup> ('c, 't) connection)
     \<Rightarrow> string list \<Rightarrow> 'e error list \<times> ('c, 't, 'e, 'w) world
     \<Rightarrow> 'e error list \<times> ('c, 't, 'e, 'w) world" where
  "close_conns m ctx groupName groupMap [] (errs, w) = (errs, w)"
| "close_conns m ctx groupName groupMap (n # ns) (errs, w) =
     (case groupMap n of
        None \<Rightarrow> close_conns m ctx groupName groupMap ns (errs, w)
      | Some conn \<Rightarrow>
          if \<not> ready conn then close_conns m ctx groupName groupMap ns (errs, w)
          else
            (case closer m of
               None \<Rightarrow> close_conns m ctx groupName groupMap ns (errs, w)
             | Some cl \<Rightarrow>
                 (case call_closer cl ctx (val conn) w of
                    (None, w') \<Rightarrow> close_conns m ctx groupName groupMap ns (errs, w')
                  | (Some err, w') \<Rightarrow>
                      close_conns m ctx groupName groupMap ns
                        (errs @ [NewErrCloseResourceFailed (allocs w') groupName n (Some err)],
                         alloc w'))))"



subsection \<open>Group operations\<close>

text \<open>
  \<^verbatim>\<open>Get\<close>, the part that runs under the write lock: the group and the record are
  resolved again, readiness is checked again, and the opener is called.
\<close>

definition Get_locked ::
  "group \<Rightarrow> 'x \<Rightarrow> string \<Rightarrow> ('x, 'c, 't, 'e, 'w) manager \<Rightarrow> ('c, 't, 'e, 'w) world
     \<Rightarrow> ('e error + 't) \<times> ('x, 'c, 't, 'e, 'w) manager \<times> ('c, 't, 'e, 'w) world" where
  "Get_locked g ctx name m w =
     (case groups m (g_name g) of
        None \<Rightarrow> (Inl (NewErrGroupNotFound (allocs w) (g_name g)), m, alloc w)
      | Some groupMap \<Rightarrow>
          (case groupMap name of
             None \<Rightarrow> (Inl (NewErrResourceNotFound (allocs w) (g_name g) name), m, alloc w)
           | Some conn \<Rightarrow>
               if ready conn then (Inr (val conn), m, w)
               else
                 (case call_opener m ctx (cfg conn) w of
                    (Inl err, w') \<Rightarrow> (Inl err, m, w')
                  | (Inr v, w') \<Rightarrow>
                      (Inr v,
                       m\<lparr>groups := (groups m)(g_name g \<mapsto>
                            groupMap(name \<mapsto> conn\<lparr>val := v, ready := True\<rparr>))\<rparr>,
                       w'))))"

text \<open>\<^verbatim>\<open>Get\<close>: the checks under the read lock, then the part above.\<close>

definition group_Get ::
  "group \<Rightarrow> 'x \<Rightarrow> string \<Rightarrow> ('x, 'c, 't, 'e, 'w) manager \<Rightarrow> ('c, 't, 'e, 'w) world
     \<Rightarrow> ('e error + 't) \<times> ('x, 'c, 't, 'e, 'w) manager \<times> ('c, 't, 'e, 'w) world" where
  "group_Get g ctx name m w =
     (case groups m (g_name g) of
        None \<Rightarrow> (Inl (NewErrGroupNotFound (allocs w) (g_name g)), m, alloc w)
      | Some groupMap \<Rightarrow>
          (case groupMap name of
             None \<Rightarrow> (Inl (NewErrResourceNotFound (allocs w) (g_name g) name), m, alloc w)
           | Some conn \<Rightarrow>
               if ready conn then (Inr (val conn), m, w)
               else Get_locked g ctx name m w))"

text \<open>\<^verbatim>\<open>Register\<close> returns \<^verbatim>\<open>(isNew, err)\<close>.\<close>

definition group_Register ::
  "group \<Rightarrow> 'x \<Rightarrow> string \<Rightarrow> 'c \<Rightarrow> ('x, 'c, 't::default, 'e, 'w) manager \<Rightarrow> ('c, 't, 'e, 'w) world
     \<Rightarrow> (bool \<times> 'e error option) \<times> ('x, 'c, 't, 'e, 'w) manager \<times> ('c, 't, 'e, 'w) world" where
  "group_Register g ctx name c m w =
     (case (case groups m (g_name g) of
              None \<Rightarrow> (Map.empty, m\<lparr>groups := (groups m)(g_name g \<mapsto> Map.empty)\<rparr>)
            | Some groupMap \<Rightarrow> (groupMap, m)) of
        (groupMap, m1) \<Rightarrow>
          (case groupMap name of
             Some _ \<Rightarrow> ((False, None), m1, w)
           | None \<Rightarrow>
               ((True, None),
                m1\<lparr>groups := (groups m1)(g_name g \<mapsto>
                      groupMap(name \<mapsto> \<lparr>cfg = c, val = default, ready = False\<rparr>))\<rparr>,
                w)))"

definition group_Unregister ::
  "group \<Rightarrow> 'x \<Rightarrow> string \<Rightarrow> ('x, 'c, 't, 'e, 'w) manager \<Rightarrow> ('c, 't, 'e, 'w) world
     \<Rightarrow> 'e error option \<times> ('x, 'c, 't, 'e, 'w) manager \<times> ('c, 't, 'e, 'w) world" where
  "group_Unregister g ctx name m w =
     (case groups m (g_name g) of
        None \<Rightarrow> (Some (NewErrGroupNotFound (allocs w) (g_name g)), m, alloc w)
      | Some groupMap \<Rightarrow>
          (case groupMap name of
             None \<Rightarrow> (Some (NewErrResourceNotFound (allocs w) (g_name g) name), m, alloc w)
           | Some conn \<Rightarrow>
               (None,
                m\<lparr>groups := (groups m)(g_name g \<mapsto> groupMap(name := None))\<rparr>,
                (if ready conn
                 then (case closer m of
                         None \<Rightarrow> w
                       | Some cl \<Rightarrow> snd (call_closer cl ctx (val conn) w))
                 else w))))"

text \<open>\<^verbatim>\<open>group.Close\<close>; \<open>ns\<close> is the order in which \<^verbatim>\<open>range\<close> visits the records.\<close>

definition group_Close ::
  "group \<Rightarrow> 'x \<Rightarrow> string list \<Rightarrow> ('x, 'c, 't, 'e, 'w) manager \<Rightarrow> ('c, 't, 'e, 'w) world
     \<Rightarrow> 'e error list \<times> ('x, 'c, 't, 'e, 'w) manager \<times> ('c, 't, 'e, 'w) world" where
  "group_Close g ctx ns m w =
     (case groups m (g_name g) of
        None \<Rightarrow> ([], m, w)
      | Some groupMap \<Rightarrow>
          (case close_conns m ctx (g_name g) groupMap ns ([], w) of
             (errs, w') \<Rightarrow> (errs, m\<lparr>groups := (groups m)(g_name g := None)\<rparr>, w')))"

text \<open>
  Modelled from the spec: the method \<^verbatim>\<open>Ping\<close> of \<^verbatim>\<open>group\<close>, whose body is not among
  the sources (the interface declares it and the tests call it). The spec's words: each
  group operation first resolves the handle's name, failing with GroupNotFound; Ping fails
  with ResourceNotFound for a name that is not registered; it always invokes the creation
  callback for the given name, regardless of readiness, and never stores the result; on
  callback failure it fails with a wrapped PingResourceFailed condition, on success it
  returns without a value.
\<close>

definition group_Ping ::
  "group \<Rightarrow> 'x \<Rightarrow> string \<Rightarrow> ('x, 'c, 't, 'e, 'w) manager \<Rightarrow> ('c, 't, 'e, 'w) world
     \<Rightarrow> 'e error option \<times> ('x, 'c, 't, 'e, 'w) manager \<times> ('c, 't, 'e, 'w) world" where
  "group_Ping g ctx name m w =
     (case groups m (g_name g) of
        None \<Rightarrow> (Some (NewErrGroupNotFound (allocs w) (g_name g)), m, alloc w)
      | Some groupMap \<Rightarrow>
          (case groupMap name of
             None \<Rightarrow> (Some (NewErrResourceNotFound (allocs w) (g_name g) name), m, alloc w)
           | Some conn \<Rightarrow>
               (case call_opener m ctx (cfg conn) w of
                  (Inl err, w') \<Rightarrow>
                    (Some (NewErrPingResourceFailed (allocs w') (g_name g) name (Some err)),
                     m, alloc w')
                | (Inr v, w') \<Rightarrow> (None, m, w'))))"

text \<open>
  The record a name has in a group, \<^verbatim>\<open>m.groups[groupName][name]\<close>: indexing a map
  that is not there finds nothing.
\<close>

definition conn_of ::
  "('x, 'c, 't, 'e, 'w) manager \<Rightarrow> string \<Rightarrow> string \<Rightarrow> ('c, 't) connection option" where
  "conn_of m groupName name =
     (case groups m groupName of None \<Rightarrow> None | Some groupMap \<Rightarrow> groupMap name)"

subsection \<open>What a closing pass does\<close>

text \<open>
  The ready records of one group among the names \<open>ns\<close>, in that order, each with its
  group and its name; and those of the whole registry, group after group.
\<close>

definition ready_conns ::
  "string \<Rightarrow> (string \<rightharpoonup> ('c, 't) connection) \<Rightarrow> string list
     \<Rightarrow> (string \<times> string \<times> ('c, 't) connection) list" where
  "ready_conns groupName groupMap ns =
     List.map_filter
       (\<lambda>n. case groupMap n of
               None \<Rightarrow> None
             | Some conn \<Rightarrow> if ready conn then Some (groupName, n, conn) else None)
       ns"


text \<open>
  The closer run on a list of values one after the other, whatever each run returns:
  the results, and the state it leaves.
\<close>

fun closer_results ::
  "('x, 't, 'e, 'w) Closer \<Rightarrow> 'x \<Rightarrow> 't list \<Rightarrow> 'w \<Rightarrow> 'e error option list \<times> 'w" where
  "closer_results cl ctx [] e = ([], e)"
| "closer_results cl ctx (v # vs) e =
     (case cl ctx v e of
        (r, e') \<Rightarrow> (case closer_results cl ctx vs e' of (rs, e'') \<Rightarrow> (r # rs, e'')))"

text \<open>
  The records whose closing returned an error, with that error; and the tagged errors
  built for them, at consecutive addresses from \<open>a\<close>.
\<close>

definition failed ::
  "(string \<times> string \<times> ('c, 't) connection) list \<Rightarrow> 'e error option list
     \<Rightarrow> (string \<times> string \<times> 'e error) list" where
  "failed rs outs =
     List.map_filter (\<lambda>((groupName, n, conn), r). map_option (\<lambda>err. (groupName, n, err)) r)
       (zip rs outs)"

fun close_errors :: "nat \<Rightarrow> (string \<times> string \<times> 'e error) list \<Rightarrow> 'e error list" where
  "close_errors a [] = []"
| "close_errors a ((groupName, n, err) # fs) =
     NewErrCloseResourceFailed a groupName n (Some err) # close_errors (Suc a) fs"

text \<open>
  A pass that closes the records \<open>rs\<close>: the world after it (one logged closer call per
  record, one allocation per failure) and the errors it returns.
\<close>

definition closed_world ::
  "('x, 't, 'e, 'w) Closer \<Rightarrow> 'x \<Rightarrow> (string \<times> string \<times> ('c, 't) connection) list
     \<Rightarrow> ('c, 't, 'e, 'w) world \<Rightarrow> ('c, 't, 'e, 'w) world" where
  "closed_world cl ctx rs w =
     (case closer_results cl ctx (map (\<lambda>(groupName, n, conn). val conn) rs) (env w) of
        (outs, e') \<Rightarrow>
          w\<lparr>env := e',
            calls := calls w @ map2 (\<lambda>(groupName, n, conn) r. CloserCall (val conn) r) rs outs,
            allocs := allocs w + length (failed rs outs)\<rparr>)"

definition closed_errors ::
  "('x, 't, 'e, 'w) Closer \<Rightarrow> 'x \<Rightarrow> (string \<times> string \<times> ('c, 't) connection) list
     \<Rightarrow> ('c, 't, 'e, 'w) world \<Rightarrow> 'e error list" where
  "closed_errors cl ctx rs w =
     close_errors (allocs w)
       (failed rs (fst (closer_results cl ctx (map (\<lambda>(groupName, n, conn). val conn) rs) (env w))))"


subsection \<open>The fixtures of the tests\<close>

text \<open>
  \<^verbatim>\<open>testConfig\<close> and \<^verbatim>\<open>*testResource\<close> of the test file, with its openers and
  closers. The zero value of the pointer is nil. \<^verbatim>\<open>newTestCloser\<close> sets the flag
  \<^verbatim>\<open>Closed\<close> of the resource it is given: \<open>env\<close> is the list of the resources closed.
\<close>

record testConfig =
  Name :: string
  Value :: int

datatype testResource = NilResource | Resource testConfig

instantiation testResource :: default
begin

definition default_testResource :: testResource where
  "default_testResource = NilResource"

instance ..

end

definition newTestOpener :: "(unit, testConfig, testResource, string, testResource list) Opener" where
  "newTestOpener ctx c e = (Inr (Resource c), e)"

definition newFailingOpener ::
  "string \<Rightarrow> (unit, testConfig, testResource, string, testResource list) Opener" where
  "newFailingOpener errMsg ctx c e = (Inl (Foreign errMsg), e)"

definition newTestCloser :: "(unit, testResource, string, testResource list) Closer" where
  "newTestCloser ctx r e = (None, e @ [r])"

definition newFailingCloser ::
  "string \<Rightarrow> (unit, testResource, string, testResource list) Closer" where
  "newFailingCloser errMsg ctx r e = (Some (Foreign errMsg), e)"

text \<open>
  A registry for the examples: \<^verbatim>\<open>res1\<close> and \<^verbatim>\<open>res3\<close> have been opened,
  \<^verbatim>\<open>res2\<close> is registered only. And a closer that fails on one resource.
\<close>

definition testGroup1 :: "string \<rightharpoonup> (testConfig, testResource) connection" where
  "testGroup1 =
     [''res1'' \<mapsto> \<lparr>cfg = \<lparr>Name = ''res1'', Value = 1\<rparr>,
                    val = Resource \<lparr>Name = ''res1'', Value = 1\<rparr>, ready = True\<rparr>,
      ''res2'' \<mapsto> \<lparr>cfg = \<lparr>Name = ''res2'', Value = 2\<rparr>, val = NilResource, ready = False\<rparr>]"

definition testGroup2 :: "string \<rightharpoonup> (testConfig, testResource) connection" where
  "testGroup2 =
     [''res3'' \<mapsto> \<lparr>cfg = \<lparr>Name = ''res3'', Value = 3\<rparr>,
                    val = Resource \<lparr>Name = ''res3'', Value = 3\<rparr>, ready = True\<rparr>]"

definition testRegistry ::
  "(unit, testConfig, testResource, string, testResource list) Opener
     \<Rightarrow> (unit, testResource, string, testResource list) Closer option
     \<Rightarrow> (unit, testConfig, testResource, string, testResource list) manager" where
  "testRegistry opener' closer' =
     \<lparr>groups = [''group1'' \<mapsto> testGroup1, ''group2'' \<mapsto> testGroup2],
      opener = opener', closer = closer'\<rparr>"

definition world0 :: "(testConfig, testResource, string, testResource list) world" where
  "world0 = \<lparr>env = [], calls = [], allocs = 0\<rparr>"


section \<open>Properties of the errors\<close>

lemma errors_is_refl: "errors_is e e"
  by (cases e) simp_all

text \<open>
  C8. An error built by \<^verbatim>\<open>NewErrGroupNotFound\<close>, \<^verbatim>\<open>NewErrResourceNotFound\<close>,
  \<^verbatim>\<open>NewErrCloseResourceFailed\<close> or \<^verbatim>\<open>NewErrPingResourceFailed\<close> matches its sentinel
  under \<^verbatim>\<open>errors.Is\<close>, whatever the names and the wrapped error are, and an error built
  by \<^verbatim>\<open>NewErrCloseResourceFailed\<close> also matches the teardown error it was given.
\<close>

theorem sentinels_matchable_after_wrapping:
  fixes err :: "'e error option" and e :: "'e error"
  shows "errors_Is (Some (NewErrGroupNotFound a g :: 'e error)) (Some ErrGroupNotFound)
     \<and> errors_Is (Some (NewErrResourceNotFound a g r :: 'e error)) (Some ErrResourceNotFound)
     \<and> errors_Is (Some (NewErrCloseResourceFailed a g r err)) (Some ErrCloseResourceFailed)
     \<and> errors_Is (Some (NewErrPingResourceFailed a g r err)) (Some ErrPingResourceFailed)
     \<and> errors_Is (Some (NewErrCloseResourceFailed a g r (Some e))) (Some e)"
  by (simp add: errors_Is_def NewErrGroupNotFound_def NewErrResourceNotFound_def
      NewErrCloseResourceFailed_def NewErrPingResourceFailed_def fmt_Errorf_def
      errors_is_refl split: option.split)

text \<open>
  C9, as stated, fails: when the callback's error is the sentinel
  \<^verbatim>\<open>ErrPingResourceFailed\<close> itself, the error \<^verbatim>\<open>NewErrPingResourceFailed\<close> builds
  wraps that very value, and \<^verbatim>\<open>errors.Is\<close> of the one against the other holds.
\<close>

theorem Ping_error_matches_sentinel_cause:
  "errors_Is (Some (NewErrPingResourceFailed 0 ''g'' ''r'' (Some ErrPingResourceFailed)))
     (Some (ErrPingResourceFailed :: string error))"
  by (simp add: errors_Is_def NewErrPingResourceFailed_def fmt_Errorf_def)

text \<open>
  C9, amended. The error \<^verbatim>\<open>NewErrPingResourceFailed\<close> builds, a value allocated after
  \<open>err\<close> was made (its address \<open>a\<close> is none of those \<open>err\<close> reaches), matches the
  sentinel \<^verbatim>\<open>ErrPingResourceFailed\<close>, and matches \<open>err\<close> in the one case that
  \<open>err\<close> is that sentinel: a nil \<open>err\<close>, a caller's error and an error built earlier
  are not matched, where \<^verbatim>\<open>NewErrCloseResourceFailed\<close> matches the error it is given.
\<close>

theorem Ping_error_drops_cause:
  fixes err :: "'e error option" and e :: "'e error"
  assumes "a \<notin> set (case err of None \<Rightarrow> [] | Some e \<Rightarrow> addrs e)"
  shows "errors_Is (Some (NewErrPingResourceFailed a g r err)) (Some ErrPingResourceFailed)
     \<and> (errors_Is (Some (NewErrPingResourceFailed a g r err)) err
          \<longleftrightarrow> err = Some ErrPingResourceFailed)
     \<and> errors_Is (Some (NewErrCloseResourceFailed a g r (Some e))) (Some e)"
  using assms
  by (cases err)
    (auto simp: errors_Is_def NewErrPingResourceFailed_def NewErrCloseResourceFailed_def
      fmt_Errorf_def errors_is_refl)

theorem Ping_error_drops_cause_witness:
  "errors_Is (Some (NewErrPingResourceFailed 3 ''g'' ''r'' (Some (Foreign ''boom''))))
       (Some ErrPingResourceFailed)
   \<and> \<not> errors_Is (Some (NewErrPingResourceFailed 3 ''g'' ''r'' (Some (Foreign ''boom''))))
       (Some (Foreign ''boom''))
   \<and> \<not> errors_Is
       (Some (NewErrPingResourceFailed 3 ''g'' ''r''
          (Some (NewErrPingResourceFailed 2 ''g'' ''r'' (Some (Foreign ''boom''))))))
       (Some (NewErrPingResourceFailed 2 ''g'' ''r'' (Some (Foreign ''boom''))))"
  using Ping_error_drops_cause [of 3 "Some (Foreign ''boom'')" "''g''" "''r''"]
    Ping_error_drops_cause
      [of 3 "Some (NewErrPingResourceFailed 2 ''g'' ''r'' (Some (Foreign ''boom'')))" "''g''" "''r''"]
  by (simp add: NewErrPingResourceFailed_def fmt_Errorf_def)

section \<open>Properties of the registry\<close>

text \<open>
  C10. \<^verbatim>\<open>Register\<close> returns a nil error for every handle, name and configuration and
  in every state of the registry, also when the handle's group is not in the registry.
\<close>

theorem Register_returns_nil_error:
  "snd (fst (group_Register g ctx name c m w)) = None"
  by (simp add: group_Register_def split: option.split)

text \<open>
  C7. For a name that is not yet a group, \<^verbatim>\<open>AddGroup\<close> returns false and adds an
  empty group; \<^verbatim>\<open>AddGroup\<close> again returns true and leaves the registry as it is;
  \<^verbatim>\<open>Group\<close> then returns a handle for the name; and before the group was added,
  \<^verbatim>\<open>Group\<close> fails with an error that matches \<^verbatim>\<open>ErrGroupNotFound\<close>. For a
  name that is a group already, whatever records the group holds, \<^verbatim>\<open>AddGroup\<close>
  returns true and the registry it leaves is the one it was given, and \<^verbatim>\<open>Group\<close>
  returns a handle for the name.
\<close>

theorem AddGroup_then_Group:
  fixes m :: "('x, 'c, 't, 'e, 'w) manager" and w :: "('c, 't, 'e, 'w) world"
  shows "(groups m name = None \<longrightarrow>
        manager_AddGroup m name = (False, m\<lparr>groups := (groups m)(name \<mapsto> Map.empty)\<rparr>)
      \<and> manager_AddGroup (snd (manager_AddGroup m name)) name
           = (True, snd (manager_AddGroup m name))
      \<and> manager_Group (snd (manager_AddGroup m name)) name w = (Inr \<lparr>g_name = name\<rparr>, w)
      \<and> (\<exists>e. manager_Group m name w = (Inl e, alloc w)
             \<and> errors_Is (Some e) (Some ErrGroupNotFound)))
     \<and> (\<forall>groupMap. groups m name = Some groupMap \<longrightarrow>
          manager_AddGroup m name = (True, m)
        \<and> groups (snd (manager_AddGroup m name)) name = Some groupMap
        \<and> manager_Group (snd (manager_AddGroup m name)) name w = (Inr \<lparr>g_name = name\<rparr>, w))
     \<and> (\<forall>other. other \<noteq> name \<longrightarrow>
          groups (snd (manager_AddGroup m name)) other = groups m other)
     \<and> opener (snd (manager_AddGroup m name)) = opener m
     \<and> closer (snd (manager_AddGroup m name)) = closer m"
  by (cases "groups m name")
    (simp_all add: manager_AddGroup_def manager_Group_def errors_Is_def NewErrGroupNotFound_def
      fmt_Errorf_def)

theorem AddGroup_then_Group_witness:
  "manager_AddGroup (New newTestOpener (Some newTestCloser)) ''g''
      = (False,
         \<lparr>groups = [''g'' \<mapsto> Map.empty], opener = newTestOpener, closer = Some newTestCloser\<rparr>)
   \<and> fst (manager_AddGroup (snd (manager_AddGroup (New newTestOpener (Some newTestCloser)) ''g''))
        ''g'')
   \<and> fst (manager_Group (snd (manager_AddGroup (New newTestOpener (Some newTestCloser)) ''g''))
        ''g'' world0) = Inr \<lparr>g_name = ''g''\<rparr>
   \<and> fst (manager_Group (New newTestOpener (Some newTestCloser)) ''missing'' world0)
        = Inl (NewErrGroupNotFound 0 ''missing'')
   \<and> manager_AddGroup (testRegistry newTestOpener None) ''group1''
        = (True, testRegistry newTestOpener None)
   \<and> conn_of (snd (manager_AddGroup (testRegistry newTestOpener None) ''group1''))
        ''group1'' ''res1''
        = Some \<lparr>cfg = \<lparr>Name = ''res1'', Value = 1\<rparr>,
                val = Resource \<lparr>Name = ''res1'', Value = 1\<rparr>, ready = True\<rparr>
   \<and> manager_Group (snd (manager_AddGroup (testRegistry newTestOpener None) ''group1''))
        ''group1'' world0 = (Inr \<lparr>g_name = ''group1''\<rparr>, world0)"
proof -
  have absent: "groups (New newTestOpener (Some newTestCloser)) ''g'' = None"
    and missing: "groups (New newTestOpener (Some newTestCloser)) ''missing'' = None"
    by (simp_all add: New_def)
  have present: "groups (testRegistry newTestOpener None) ''group1'' = Some testGroup1"
    by (simp add: testRegistry_def)
  note new = AddGroup_then_Group
    [where m = "New newTestOpener (Some newTestCloser)" and name = "''g''" and w = world0,
      THEN conjunct1, rule_format, OF absent]
  note none = AddGroup_then_Group
    [where m = "New newTestOpener (Some newTestCloser)" and name = "''missing''" and w = world0,
      THEN conjunct1, rule_format, OF missing]
  note old = AddGroup_then_Group
    [where m = "testRegistry newTestOpener None" and name = "''group1''" and w = world0,
      THEN conjunct2, THEN conjunct1, rule_format, OF present]
  show ?thesis
    using new none old
    by (simp add: New_def world0_def conn_of_def manager_AddGroup_def manager_Group_def
        testRegistry_def testGroup1_def)
qed

text \<open>
  C3. When the name has no record in the handle's group (the group may be missing too),
  \<^verbatim>\<open>Register\<close> returns "new" and afterwards the group exists and holds for the name
  a record with the given configuration, the zero value and \<open>ready = False\<close>, every
  other record and every other group being as before. When the name has a record,
  \<^verbatim>\<open>Register\<close> returns "not new" and the registry is unchanged, so the record keeps
  its configuration. In both cases the world is unchanged: no callback is invoked.
\<close>

theorem Register_inserts_iff_absent:
  fixes m :: "('x, 'c, 't::default, 'e, 'w) manager"
  shows "(conn_of m (g_name g) name = None \<longrightarrow>
        (\<exists>m'. group_Register g ctx name c m w = ((True, None), m', w)
           \<and> conn_of m' (g_name g) name = Some \<lparr>cfg = c, val = default, ready = False\<rparr>
           \<and> groups m' (g_name g) \<noteq> None
           \<and> (\<forall>g' n'. (g', n') \<noteq> (g_name g, name) \<longrightarrow> conn_of m' g' n' = conn_of m g' n')
           \<and> (\<forall>g'. g' \<noteq> g_name g \<longrightarrow> groups m' g' = groups m g')
           \<and> opener m' = opener m \<and> closer m' = closer m))
     \<and> (\<forall>conn. conn_of m (g_name g) name = Some conn \<longrightarrow>
          group_Register g ctx name c m w = ((False, None), m, w))"
  by (auto simp: group_Register_def conn_of_def split: option.splits)

theorem Register_inserts_iff_absent_witness:
  "group_Register \<lparr>g_name = ''group1''\<rparr> () ''res2'' \<lparr>Name = ''other'', Value = 7\<rparr>
       (testRegistry newTestOpener None) world0
     = ((False, None), testRegistry newTestOpener None, world0)
   \<and> fst (group_Register \<lparr>g_name = ''gone''\<rparr> () ''res1'' \<lparr>Name = ''res1'', Value = 2\<rparr>
        (testRegistry newTestOpener None) world0) = (True, None)
   \<and> conn_of (fst (snd (group_Register \<lparr>g_name = ''gone''\<rparr> () ''res1''
        \<lparr>Name = ''res1'', Value = 2\<rparr> (testRegistry newTestOpener None) world0))) ''gone'' ''res1''
       = Some \<lparr>cfg = \<lparr>Name = ''res1'', Value = 2\<rparr>, val = NilResource, ready = False\<rparr>"
  using
    Register_inserts_iff_absent [of "testRegistry newTestOpener None" "\<lparr>g_name = ''group1''\<rparr>"
      "''res2''" "()" "\<lparr>Name = ''other'', Value = 7\<rparr>" world0]
    Register_inserts_iff_absent [of "testRegistry newTestOpener None" "\<lparr>g_name = ''gone''\<rparr>"
      "''res1''" "()" "\<lparr>Name = ''res1'', Value = 2\<rparr>" world0]
  by (auto simp add: conn_of_def testRegistry_def testGroup1_def default_testResource_def)

text \<open>
  C1. For a name registered in a group of the registry: when its record is ready,
  \<^verbatim>\<open>Get\<close> returns the cached value and changes neither the registry nor the world (the
  opener is not called). When the record is not ready, \<^verbatim>\<open>Get\<close> calls the opener once,
  with the record's configuration; if the opener returns a value, \<^verbatim>\<open>Get\<close> returns it
  and stores it in the record, now ready; if the opener returns an error, \<^verbatim>\<open>Get\<close>
  returns that error, the registry is unchanged, and a second \<^verbatim>\<open>Get\<close> calls the
  opener once more.
\<close>

theorem Get_cached_or_created:
  assumes "groups m (g_name g) = Some groupMap" and "groupMap name = Some conn"
  shows "(ready conn \<longrightarrow> group_Get g ctx name m w = (Inr (val conn), m, w))
     \<and> (\<not> ready conn \<longrightarrow>
          (case opener m ctx (cfg conn) (env w) of
             (Inr v, e') \<Rightarrow>
               group_Get g ctx name m w =
                 (Inr v,
                  m\<lparr>groups := (groups m)(g_name g \<mapsto>
                       groupMap(name \<mapsto> conn\<lparr>val := v, ready := True\<rparr>))\<rparr>,
                  w\<lparr>env := e', calls := calls w @ [OpenerCall (cfg conn) (Inr v)]\<rparr>)
           | (Inl err, e') \<Rightarrow>
               group_Get g ctx name m w =
                 (Inl err, m, w\<lparr>env := e', calls := calls w @ [OpenerCall (cfg conn) (Inl err)]\<rparr>)
               \<and> calls (snd (snd (group_Get g ctx name m
                     (w\<lparr>env := e', calls := calls w @ [OpenerCall (cfg conn) (Inl err)]\<rparr>))))
                   = calls w @ [OpenerCall (cfg conn) (Inl err),
                                OpenerCall (cfg conn) (fst (opener m ctx (cfg conn) e'))]))"
  using assms
  by (auto simp: group_Get_def Get_locked_def call_opener_def split: prod.splits sum.splits)

theorem Get_cached_or_created_witness:
  "group_Get \<lparr>g_name = ''group1''\<rparr> () ''res1'' (testRegistry (newFailingOpener ''boom'') None) world0
     = (Inr (Resource \<lparr>Name = ''res1'', Value = 1\<rparr>),
        testRegistry (newFailingOpener ''boom'') None, world0)
   \<and> group_Get \<lparr>g_name = ''group1''\<rparr> () ''res2'' (testRegistry (newFailingOpener ''boom'') None) world0
     = (Inl (Foreign ''boom''), testRegistry (newFailingOpener ''boom'') None,
        world0\<lparr>calls := [OpenerCall \<lparr>Name = ''res2'', Value = 2\<rparr> (Inl (Foreign ''boom''))]\<rparr>)
   \<and> fst (group_Get \<lparr>g_name = ''group1''\<rparr> () ''res2'' (testRegistry newTestOpener None) world0)
     = Inr (Resource \<lparr>Name = ''res2'', Value = 2\<rparr>)
   \<and> conn_of (fst (snd (group_Get \<lparr>g_name = ''group1''\<rparr> () ''res2''
         (testRegistry newTestOpener None) world0))) ''group1'' ''res2''
     = Some \<lparr>cfg = \<lparr>Name = ''res2'', Value = 2\<rparr>,
             val = Resource \<lparr>Name = ''res2'', Value = 2\<rparr>, ready = True\<rparr>"
proof -
  have g: "groups (testRegistry op None) (g_name \<lparr>g_name = ''group1''\<rparr>) = Some testGroup1" for op
    by (simp add: testRegistry_def)
  have r1: "testGroup1 ''res1'' = Some \<lparr>cfg = \<lparr>Name = ''res1'', Value = 1\<rparr>,
      val = Resource \<lparr>Name = ''res1'', Value = 1\<rparr>, ready = True\<rparr>"
    and r2: "testGroup1 ''res2'' = Some \<lparr>cfg = \<lparr>Name = ''res2'', Value = 2\<rparr>,
      val = NilResource, ready = False\<rparr>"
    by (simp_all add: testGroup1_def)
  show ?thesis
    using Get_cached_or_created [OF g [of "newFailingOpener ''boom''"] r1, where ctx = "()" and w = world0]
      Get_cached_or_created [OF g [of "newFailingOpener ''boom''"] r2, where ctx = "()" and w = world0]
      Get_cached_or_created [OF g [of newTestOpener] r2, where ctx = "()" and w = world0]
    by (simp add: testRegistry_def world0_def newFailingOpener_def newTestOpener_def conn_of_def)
qed

text \<open>
  C2. For a registered name, ready or not, \<^verbatim>\<open>Ping\<close> calls the opener once with the
  record's configuration and returns the registry as it was, the record included; a second
  \<^verbatim>\<open>Ping\<close> calls the opener again, and a \<^verbatim>\<open>Get\<close> after it runs on the registry
  that was there before. When the opener returns a value \<^verbatim>\<open>Ping\<close> returns nil; when it
  returns an error \<^verbatim>\<open>Ping\<close> returns an error that matches
  \<^verbatim>\<open>ErrPingResourceFailed\<close>.
\<close>

theorem Ping_stores_nothing:
  assumes "groups m (g_name g) = Some groupMap" and "groupMap name = Some conn"
  shows "(case opener m ctx (cfg conn) (env w) of
            (Inr v, e') \<Rightarrow>
              group_Ping g ctx name m w =
                (None, m, w\<lparr>env := e', calls := calls w @ [OpenerCall (cfg conn) (Inr v)]\<rparr>)
          | (Inl err, e') \<Rightarrow>
              (\<exists>perr. group_Ping g ctx name m w =
                  (Some perr, m,
                   alloc (w\<lparr>env := e', calls := calls w @ [OpenerCall (cfg conn) (Inl err)]\<rparr>))
                 \<and> errors_Is (Some perr) (Some ErrPingResourceFailed)))
     \<and> fst (snd (group_Ping g ctx name m w)) = m
     \<and> conn_of (fst (snd (group_Ping g ctx name m w))) (g_name g) name = Some conn
     \<and> calls (snd (snd (group_Ping g ctx name m (snd (snd (group_Ping g ctx name m w))))))
         = calls w @ [OpenerCall (cfg conn) (fst (opener m ctx (cfg conn) (env w))),
                      OpenerCall (cfg conn)
                        (fst (opener m ctx (cfg conn) (snd (opener m ctx (cfg conn) (env w)))))]
     \<and> group_Get g ctx name (fst (snd (group_Ping g ctx name m w))) w2 = group_Get g ctx name m w2"
  using assms
  by (auto simp: group_Ping_def call_opener_def conn_of_def alloc_def errors_Is_def
      NewErrPingResourceFailed_def fmt_Errorf_def split: prod.splits sum.splits)

theorem Ping_stores_nothing_witness:
  "group_Ping \<lparr>g_name = ''group1''\<rparr> () ''res2'' (testRegistry newTestOpener None) world0
     = (None, testRegistry newTestOpener None,
        world0\<lparr>calls := [OpenerCall \<lparr>Name = ''res2'', Value = 2\<rparr>
                            (Inr (Resource \<lparr>Name = ''res2'', Value = 2\<rparr>))]\<rparr>)
   \<and> group_Ping \<lparr>g_name = ''group1''\<rparr> () ''res1'' (testRegistry (newFailingOpener ''boom'') None)
        world0
     = (Some (NewErrPingResourceFailed 0 ''group1'' ''res1'' (Some (Foreign ''boom''))),
        testRegistry (newFailingOpener ''boom'') None,
        world0\<lparr>calls := [OpenerCall \<lparr>Name = ''res1'', Value = 1\<rparr> (Inl (Foreign ''boom''))],
               allocs := 1\<rparr>)"
proof -
  have g: "groups (testRegistry op None) (g_name \<lparr>g_name = ''group1''\<rparr>) = Some testGroup1" for op
    by (simp add: testRegistry_def)
  have r1: "testGroup1 ''res1'' = Some \<lparr>cfg = \<lparr>Name = ''res1'', Value = 1\<rparr>,
      val = Resource \<lparr>Name = ''res1'', Value = 1\<rparr>, ready = True\<rparr>"
    and r2: "testGroup1 ''res2'' = Some \<lparr>cfg = \<lparr>Name = ''res2'', Value = 2\<rparr>,
      val = NilResource, ready = False\<rparr>"
    by (simp_all add: testGroup1_def)
  show ?thesis
    using Ping_stores_nothing [OF g [of newTestOpener] r2, where ctx = "()" and w = world0]
      Ping_stores_nothing [OF g [of "newFailingOpener ''boom''"] r1, where ctx = "()" and w = world0]
    by (simp add: testRegistry_def world0_def newFailingOpener_def newTestOpener_def
        group_Ping_def call_opener_def alloc_def testGroup1_def)
qed

text \<open>
  C5. In a group of the registry: for a name with a record, \<^verbatim>\<open>Unregister\<close> returns nil
  and removes the record, and the closer is called, once and with the record's value,
  when the record is ready and a closer was supplied, whatever the closer returns; for a
  record that is not ready (or with no closer) the world is unchanged. For a name with no
  record \<^verbatim>\<open>Unregister\<close> changes nothing in the registry and returns an error that
  matches \<^verbatim>\<open>ErrResourceNotFound\<close>.
\<close>

theorem Unregister_closes_ready_only:
  assumes "groups m (g_name g) = Some groupMap"
  shows "(\<forall>conn. groupMap name = Some conn \<longrightarrow>
            fst (group_Unregister g ctx name m w) = None
          \<and> fst (snd (group_Unregister g ctx name m w))
              = m\<lparr>groups := (groups m)(g_name g \<mapsto> groupMap(name := None))\<rparr>
          \<and> (ready conn \<longrightarrow>
               (\<forall>cl. closer m = Some cl \<longrightarrow>
                  snd (snd (group_Unregister g ctx name m w))
                    = w\<lparr>env := snd (cl ctx (val conn) (env w)),
                        calls := calls w @ [CloserCall (val conn) (fst (cl ctx (val conn) (env w)))]\<rparr>)
             \<and> (closer m = None \<longrightarrow> snd (snd (group_Unregister g ctx name m w)) = w))
          \<and> (\<not> ready conn \<longrightarrow> snd (snd (group_Unregister g ctx name m w)) = w))
     \<and> (groupMap name = None \<longrightarrow>
          (\<exists>e. group_Unregister g ctx name m w = (Some e, m, alloc w)
             \<and> errors_Is (Some e) (Some ErrResourceNotFound)))"
  using assms
  by (auto simp: group_Unregister_def call_closer_def errors_Is_def
      NewErrResourceNotFound_def fmt_Errorf_def split: prod.splits)

theorem Unregister_closes_ready_only_witness:
  "fst (group_Unregister \<lparr>g_name = ''group1''\<rparr> () ''res1''
      (testRegistry newTestOpener (Some (newFailingCloser ''close failed''))) world0) = None
   \<and> conn_of (fst (snd (group_Unregister \<lparr>g_name = ''group1''\<rparr> () ''res1''
      (testRegistry newTestOpener (Some (newFailingCloser ''close failed''))) world0)))
        ''group1'' ''res1'' = None
   \<and> snd (snd (group_Unregister \<lparr>g_name = ''group1''\<rparr> () ''res1''
      (testRegistry newTestOpener (Some (newFailingCloser ''close failed''))) world0))
       = world0\<lparr>calls := [CloserCall (Resource \<lparr>Name = ''res1'', Value = 1\<rparr>)
                            (Some (Foreign ''close failed''))]\<rparr>
   \<and> snd (snd (group_Unregister \<lparr>g_name = ''group1''\<rparr> () ''res2''
      (testRegistry newTestOpener (Some (newFailingCloser ''close failed''))) world0)) = world0
   \<and> fst (group_Unregister \<lparr>g_name = ''group1''\<rparr> () ''res9''
      (testRegistry newTestOpener (Some (newFailingCloser ''close failed''))) world0)
       = Some (NewErrResourceNotFound 0 ''group1'' ''res9'')"
proof -
  have g: "groups (testRegistry newTestOpener (Some (newFailingCloser ''close failed'')))
      (g_name \<lparr>g_name = ''group1''\<rparr>) = Some testGroup1"
    by (simp add: testRegistry_def)
  show ?thesis
    using Unregister_closes_ready_only [OF g, where name = "''res1''" and ctx = "()" and w = world0]
      Unregister_closes_ready_only [OF g, where name = "''res2''" and ctx = "()" and w = world0]
      Unregister_closes_ready_only [OF g, where name = "''res9''" and ctx = "()" and w = world0]
    by (simp add: testRegistry_def testGroup1_def world0_def newFailingCloser_def conn_of_def
        group_Unregister_def alloc_def)
qed

subsection \<open>Closing passes\<close>









text \<open>With no closer the loops do nothing.\<close>

lemma close_conns_no_closer:
  "closer m = None \<Longrightarrow> close_conns m ctx g gm ns (errs, w) = (errs, w)"
  by (induction ns) (auto split: option.splits)


text \<open>With a closer, the inner loop is a closing pass over the ready records it visits.\<close>

lemma close_conns_spec:
  assumes "closer m = Some cl"
  shows "close_conns m ctx g gm ns (errs, w) =
     (errs @ closed_errors cl ctx (ready_conns g gm ns) w,
      closed_world cl ctx (ready_conns g gm ns) w)"
proof (induction ns arbitrary: errs w)
  case Nil
  show ?case
    by (simp add: closed_errors_def closed_world_def ready_conns_def failed_def)
next
  case (Cons n ns)
  show ?case
  proof (cases "gm n")
    case None
    then show ?thesis
      using Cons.IH by (simp add: ready_conns_def)
  next
    case (Some conn)
    show ?thesis
    proof (cases "ready conn")
      case False
      with Some show ?thesis
        using Cons.IH by (simp add: ready_conns_def)
    next
      case True
      obtain r e' where cl: "cl ctx (val conn) (env w) = (r, e')"
        by (cases "cl ctx (val conn) (env w)")
      have rc: "ready_conns g gm (n # ns) = (g, n, conn) # ready_conns g gm ns"
        using Some True by (simp add: ready_conns_def)
      show ?thesis
      proof (cases r)
        case None
        show ?thesis
          using Some True assms cl None
          by (simp add: rc Cons.IH call_closer_def closed_errors_def closed_world_def failed_def
              split: prod.splits)
      next
        case (Some err)
        show ?thesis
          using \<open>gm n = Some conn\<close> True assms cl Some
          by (simp add: rc Cons.IH call_closer_def closed_errors_def closed_world_def failed_def
              alloc_def split: prod.splits)
      qed
    qed
  qed
qed


text \<open>In an order of \<^verbatim>\<open>range\<close>, the ready records visited are all of them, each once.\<close>

lemma set_ready_conns_in:
  "set (ready_conns g gm ns) =
     {(g, n, conn) | n conn. n \<in> set ns \<and> gm n = Some conn \<and> ready conn}"
  by (induction ns) (auto simp: ready_conns_def split: option.splits)


lemma names_ready_conns:
  "map (\<lambda>(g', n, conn). n) (ready_conns g gm ns)
     = filter (\<lambda>n. case gm n of None \<Rightarrow> False | Some conn \<Rightarrow> ready conn) ns"
  by (induction ns) (auto simp: ready_conns_def split: option.splits)






text \<open>
  C6. \<^verbatim>\<open>group.Close\<close> on a handle whose group is not in the registry returns no error
  and changes neither the registry nor the world. For a group of the registry, visited
  in an order \<open>ns\<close> of \<^verbatim>\<open>range\<close>: the records considered are the ready records of
  that group, each once; with no closer nothing is called; with a closer the closing pass
  runs over those records only, one tagged error for each call that failed; afterwards
  the group is gone and every other group is as it was.
\<close>

theorem group_Close_tears_down_own_group:
  "(groups m (g_name g) = None \<longrightarrow> group_Close g ctx ns m w = ([], m, w))
   \<and> (\<forall>groupMap. groups m (g_name g) = Some groupMap \<and> distinct ns \<and> set ns = dom groupMap \<longrightarrow>
        set (ready_conns (g_name g) groupMap ns)
          = {(g_name g, n, conn) | n conn. groupMap n = Some conn \<and> ready conn}
      \<and> distinct (map (\<lambda>(g', n, conn). n) (ready_conns (g_name g) groupMap ns))
      \<and> (closer m = None \<longrightarrow>
           group_Close g ctx ns m w = ([], m\<lparr>groups := (groups m)(g_name g := None)\<rparr>, w))
      \<and> (\<forall>cl. closer m = Some cl \<longrightarrow>
           group_Close g ctx ns m w =
             (closed_errors cl ctx (ready_conns (g_name g) groupMap ns) w,
              m\<lparr>groups := (groups m)(g_name g := None)\<rparr>,
              closed_world cl ctx (ready_conns (g_name g) groupMap ns) w))
      \<and> groups (fst (snd (group_Close g ctx ns m w))) (g_name g) = None
      \<and> (\<forall>g'. g' \<noteq> g_name g \<longrightarrow>
           groups (fst (snd (group_Close g ctx ns m w))) g' = groups m g'))"
proof (intro conjI allI impI)
  fix groupMap cl
  assume "groups m (g_name g) = Some groupMap \<and> distinct ns \<and> set ns = dom groupMap"
    and "closer m = Some cl"
  then show "group_Close g ctx ns m w =
             (closed_errors cl ctx (ready_conns (g_name g) groupMap ns) w,
              m\<lparr>groups := (groups m)(g_name g := None)\<rparr>,
              closed_world cl ctx (ready_conns (g_name g) groupMap ns) w)"
    by (simp add: group_Close_def close_conns_spec)
qed (auto simp: group_Close_def close_conns_no_closer set_ready_conns_in names_ready_conns
    split: prod.splits)

theorem group_Close_tears_down_own_group_witness:
  "group_Close \<lparr>g_name = ''gone''\<rparr> () [] (testRegistry newTestOpener (Some newTestCloser)) world0
     = ([], testRegistry newTestOpener (Some newTestCloser), world0)
   \<and> fst (group_Close \<lparr>g_name = ''group1''\<rparr> () [''res2'', ''res1'']
        (testRegistry newTestOpener (Some newTestCloser)) world0) = []
   \<and> snd (snd (group_Close \<lparr>g_name = ''group1''\<rparr> () [''res2'', ''res1'']
        (testRegistry newTestOpener (Some newTestCloser)) world0))
       = \<lparr>env = [Resource \<lparr>Name = ''res1'', Value = 1\<rparr>],
          calls = [CloserCall (Resource \<lparr>Name = ''res1'', Value = 1\<rparr>) None], allocs = 0\<rparr>
   \<and> groups (fst (snd (group_Close \<lparr>g_name = ''group1''\<rparr> () [''res2'', ''res1'']
        (testRegistry newTestOpener (Some newTestCloser)) world0))) ''group1'' = None
   \<and> groups (fst (snd (group_Close \<lparr>g_name = ''group1''\<rparr> () [''res2'', ''res1'']
        (testRegistry newTestOpener (Some newTestCloser)) world0))) ''group2'' = Some testGroup2"
proof -
  have dom1: "distinct [''res2'', ''res1''] \<and> set [''res2'', ''res1''] = dom testGroup1"
    by (auto simp: testGroup1_def)
  show ?thesis
    using group_Close_tears_down_own_group
        [of "testRegistry newTestOpener (Some newTestCloser)" "\<lparr>g_name = ''gone''\<rparr>" "()" "[]" world0]
      group_Close_tears_down_own_group
        [of "testRegistry newTestOpener (Some newTestCloser)" "\<lparr>g_name = ''group1''\<rparr>" "()"
          "[''res2'', ''res1'']" world0,
         THEN conjunct2, rule_format, of testGroup1]
      dom1
    by (simp add: testRegistry_def testGroup1_def world0_def closed_errors_def closed_world_def
        ready_conns_def failed_def newTestCloser_def)
qed

end
